theory Spec2Isabelle
  imports Main "HOL-Library.Word"
begin

unbundle bit_operations_syntax

section \<open>The MSP430x5xx device controller driver (dcd_msp430x5xx.c)\<close>

subsection \<open>Constants of the device header\<close>

text \<open>
  The bit masks and the interrupt vector numbers come from the device header
  \<^verbatim>\<open>msp430.h\<close>, outside the driver file. They are parameters of the model: every
  function takes the header \<open>h\<close>, and every general theorem holds for all values of these
  constants. Each constant has the width of the register it is used with.
\<close>

record msp430_h =
  USBKEY :: "16 word"
  USB_EN :: "16 word"
  PUR_EN :: "16 word"
  VUOVLIE :: "16 word"
  VBONIE :: "16 word"
  VBOFFIE :: "16 word"
  VUOVLIFG :: "16 word"
  VBONIFG :: "16 word"
  VBOFFIFG :: "16 word"
  UBME :: "8 word"
  USBIIE :: "8 word"
  NAK :: "8 word"
  FEN :: "8 word"
  DIR :: "8 word"
  SETUPIE :: "8 word"
  RSTRIE :: "8 word"
  SETUPIFG :: "8 word"
  USBVECINT_RSTR :: "16 word"
  USBVECINT_SETUP_PACKET_RECEIVED :: "16 word"
  USBVECINT_INPUT_ENDPOINT0 :: "16 word"
  USBVECINT_OUTPUT_ENDPOINT0 :: "16 word"

definition BIT0 :: "8 word" where
  "BIT0 = 1"

subsection \<open>Data model\<close>

text \<open>
  \<^verbatim>\<open>xfer_ctl_t\<close>. The buffer pointer is an address into the application memory
  \<open>mem\<close> of the state below; \<open>NULL\<close> is address 0.
\<close>

record xfer_ctl_t =
  buffer :: nat
  total_len :: "16 word"
  queued_len :: "16 word"
  max_size :: "16 word"
  short_packet :: bool
  zlp_sent :: bool

datatype tusb_dir_t = TUSB_DIR_OUT | TUSB_DIR_IN

datatype xfer_result_t = XFER_RESULT_SUCCESS | XFER_RESULT_FAILED | XFER_RESULT_STALLED

text \<open>
  Modelled from the spec: the events emitted upward, \<open>bus_reset\<close>,
  \<open>setup_packet_received(8 bytes)\<close> and
  \<open>transfer_complete(endpoint, bytes_transferred, status)\<close>. The functions
  \<^verbatim>\<open>dcd_event_bus_signal\<close>, \<^verbatim>\<open>dcd_event_setup_received\<close> and
  \<^verbatim>\<open>dcd_event_xfer_complete\<close> that hand them to the stack are declared in
  \<^verbatim>\<open>device/dcd.h\<close>, outside the driver file; the model appends the event to the
  list \<open>events\<close> of the state.
\<close>

datatype dcd_event =
    Bus_reset
  | Setup_received "8 word list"
  | Xfer_complete "8 word" nat xfer_result_t

text \<open>
  The state: the registers of the USB module that the driver touches, the global interrupt
  enable bit of the status register, the static variables of the file, the application
  memory that transfer buffers point into, and the events emitted so far. \<open>SR_GIE\<close> is
  the \<^verbatim>\<open>GIE\<close> bit of the status register; \<open>setup_packet\<close> is the array
  \<^verbatim>\<open>_setup_packet\<close>.

  The registers are declared in \<^verbatim>\<open>msp430.h\<close>, outside the driver file. In the
  model \<open>USBOEPIE\<close>, \<open>USBIEPIE\<close>, \<open>USBIE\<close>, the three flag registers, \<open>USBCTL\<close>,
  \<open>USBFUNADR\<close> and the endpoint-0 configuration and count registers are bytes (the
  driver masks the count register with \<open>0xF0\<close> and keeps \<open>USBIE\<close> in a byte), and
  \<open>USBKEYPID\<close>, \<open>USBCNF\<close>, \<open>USBPWRCTL\<close> and \<open>USBVECINT\<close> are 16-bit (the driver
  reads the vector into a \<^verbatim>\<open>uint16_t\<close>). The memory-mapped blocks \<open>USBIEP0BUF\<close> and
  \<open>USBSUBLK\<close> are addressed by byte offset from their first byte, as the driver does
  through a byte pointer; the transfer buffers of the application do not overlap them.
\<close>

record dcd_state =
  USBKEYPID :: "16 word"
  USBCNF :: "16 word"
  USBPWRCTL :: "16 word"
  USBVECINT :: "16 word"
  USBOEPIE :: "8 word"
  USBIEPIE :: "8 word"
  USBIE :: "8 word"
  USBOEPIFG :: "8 word"
  USBIEPIFG :: "8 word"
  USBIFG :: "8 word"
  USBCTL :: "8 word"
  USBFUNADR :: "8 word"
  USBOEPCNF_0 :: "8 word"
  USBIEPCNF_0 :: "8 word"
  USBOEPCNT_0 :: "8 word"
  USBIEPCNT_0 :: "8 word"
  USBIEP0BUF :: "nat \<Rightarrow> 8 word"
  USBSUBLK :: "nat \<Rightarrow> 8 word"
  SR_GIE :: bool
  usbiepie_mirror :: "16 word"
  usboepie_mirror :: "16 word"
  usbie_mirror :: "8 word"
  usbpwrctl_mirror :: "16 word"
  in_isr :: bool
  setup_packet :: "nat \<Rightarrow> 8 word"
  xfer_status :: "nat \<Rightarrow> tusb_dir_t \<Rightarrow> xfer_ctl_t"
  iepcnt :: "8 word"
  mem :: "nat \<Rightarrow> 8 word"
  events :: "dcd_event list"

text \<open>The table \<^verbatim>\<open>xfer_status[8][2]\<close> has rows 0 to 7.\<close>

definition in_table :: "nat \<Rightarrow> bool" where
  "in_table ep \<longleftrightarrow> ep < 8"

definition put_xfer :: "nat \<Rightarrow> tusb_dir_t \<Rightarrow> xfer_ctl_t \<Rightarrow> dcd_state \<Rightarrow> dcd_state" where
  "put_xfer ep dir x s = s\<lparr>xfer_status := (xfer_status s)(ep := (xfer_status s ep)(dir := x))\<rparr>"

subsection \<open>Events\<close>

text \<open>
  \<^verbatim>\<open>dcd_event_bus_signal\<close> is only ever called with \<^verbatim>\<open>DCD_EVENT_BUS_RESET\<close>.
\<close>

definition dcd_event_bus_signal :: "dcd_state \<Rightarrow> dcd_state" where
  "dcd_event_bus_signal s = s\<lparr>events := events s @ [Bus_reset]\<rparr>"

definition dcd_event_setup_received :: "dcd_state \<Rightarrow> dcd_state" where
  "dcd_event_setup_received s =
     s\<lparr>events := events s @ [Setup_received (map (setup_packet s) [0..<8])]\<rparr>"

definition dcd_event_xfer_complete ::
  "8 word \<Rightarrow> 16 word \<Rightarrow> xfer_result_t \<Rightarrow> dcd_state \<Rightarrow> dcd_state" where
  "dcd_event_xfer_complete ep_addr xferred_bytes result s =
     s\<lparr>events := events s @ [Xfer_complete ep_addr (unat xferred_bytes) result]\<rparr>"

subsection \<open>Bus reset and controller API\<close>

text \<open>The port argument \<^verbatim>\<open>rhport\<close>, which every function of the API ignores, is left out.\<close>

definition bus_reset :: "msp430_h \<Rightarrow> dcd_state \<Rightarrow> dcd_state" where
  "bus_reset h s =
     (let s = put_xfer 0 TUSB_DIR_OUT ((xfer_status s 0 TUSB_DIR_OUT)\<lparr>max_size := 8\<rparr>) s;
          s = put_xfer 0 TUSB_DIR_IN ((xfer_status s 0 TUSB_DIR_IN)\<lparr>max_size := 8\<rparr>) s;
          s = s\<lparr>USBKEYPID := USBKEY h\<rparr>;
          s = s\<lparr>USBOEPCNF_0 := USBOEPCNF_0 s OR (UBME h OR USBIIE h)\<rparr>;
          s = s\<lparr>USBIEPCNF_0 := USBIEPCNF_0 s OR (UBME h OR USBIIE h)\<rparr>;
          s = s\<lparr>USBOEPIE := USBOEPIE s OR BIT0\<rparr>;
          s = s\<lparr>USBIEPIE := USBIEPIE s OR BIT0\<rparr>;
          s = s\<lparr>USBOEPCNT_0 := USBOEPCNT_0 s OR NAK h\<rparr>;
          s = s\<lparr>USBIEPCNT_0 := USBIEPCNT_0 s OR NAK h\<rparr>;
          s = s\<lparr>USBCTL := USBCTL s OR FEN h\<rparr>;
          s = s\<lparr>USBIE := USBIE s OR SETUPIE h\<rparr>
      in s\<lparr>USBKEYPID := 0\<rparr>)"

definition pwr_ie :: "msp430_h \<Rightarrow> 16 word" where
  "pwr_ie h = VUOVLIE h OR VBONIE h OR VBOFFIE h"

definition dcd_init :: "msp430_h \<Rightarrow> dcd_state \<Rightarrow> dcd_state" where
  "dcd_init h s =
     (let s = s\<lparr>USBKEYPID := USBKEY h\<rparr>;
          s = s\<lparr>USBCNF := USBCNF s OR USB_EN h\<rparr>;
          s = s\<lparr>USBOEPIE := 0\<rparr>;
          s = s\<lparr>USBIEPIE := 0\<rparr>;
          s = s\<lparr>USBIE := 0\<rparr>;
          s = s\<lparr>USBOEPIFG := 0\<rparr>;
          s = s\<lparr>USBIEPIFG := 0\<rparr>;
          s = s\<lparr>USBIFG := 0\<rparr>;
          s = s\<lparr>USBPWRCTL := USBPWRCTL s AND
                NOT (pwr_ie h OR VUOVLIFG h OR VBONIFG h OR VBOFFIFG h)\<rparr>;
          s = s\<lparr>usboepie_mirror := 0\<rparr>;
          s = s\<lparr>usbiepie_mirror := 0\<rparr>;
          s = s\<lparr>usbie_mirror := 0\<rparr>;
          s = s\<lparr>usbpwrctl_mirror := 0\<rparr>;
          s = s\<lparr>USBVECINT := 0\<rparr>;
          s = s\<lparr>USBIE := USBIE s OR RSTRIE h\<rparr>;
          s = s\<lparr>USBCNF := USBCNF s OR PUR_EN h\<rparr>
      in s\<lparr>USBKEYPID := 0\<rparr>)"

text \<open>
  \<^verbatim>\<open>dcd_int_enable\<close>: \<^verbatim>\<open>__bic_SR_register(GIE)\<close> and \<^verbatim>\<open>__bis_SR_register(GIE)\<close>
  clear and set the global interrupt enable bit. Assigning a 16-bit mirror to a byte
  register keeps its low byte.
\<close>

definition dcd_int_enable :: "msp430_h \<Rightarrow> dcd_state \<Rightarrow> dcd_state" where
  "dcd_int_enable h s =
     (let s = s\<lparr>SR_GIE := False\<rparr>;
          s = (if in_isr s then
                 (let s = s\<lparr>USBOEPIE := ucast (usboepie_mirror s)\<rparr>;
                      s = s\<lparr>USBIEPIE := ucast (usbiepie_mirror s)\<rparr>;
                      s = s\<lparr>USBIE := usbie_mirror s\<rparr>
                  in s\<lparr>USBPWRCTL := USBPWRCTL s OR usbpwrctl_mirror s\<rparr>)
               else s);
          s = s\<lparr>in_isr := False\<rparr>
      in s\<lparr>SR_GIE := True\<rparr>)"

definition dcd_int_disable :: "msp430_h \<Rightarrow> dcd_state \<Rightarrow> dcd_state" where
  "dcd_int_disable h s =
     (let s = s\<lparr>SR_GIE := False\<rparr>;
          s = s\<lparr>usboepie_mirror := ucast (USBOEPIE s)\<rparr>;
          s = s\<lparr>usbiepie_mirror := ucast (USBIEPIE s)\<rparr>;
          s = s\<lparr>usbie_mirror := USBIE s\<rparr>;
          s = s\<lparr>usbpwrctl_mirror := USBPWRCTL s AND pwr_ie h\<rparr>;
          s = s\<lparr>USBOEPIE := 0\<rparr>;
          s = s\<lparr>USBIEPIE := 0\<rparr>;
          s = s\<lparr>USBIE := 0\<rparr>;
          s = s\<lparr>USBPWRCTL := USBPWRCTL s AND NOT (pwr_ie h)\<rparr>;
          s = s\<lparr>in_isr := True\<rparr>
      in s\<lparr>SR_GIE := True\<rparr>)"

subsection \<open>Endpoint addresses\<close>

text \<open>
  Modelled from the spec: an endpoint address names an endpoint number and a direction
  (IN or OUT). The helpers \<^verbatim>\<open>tu_edpt_number\<close>, \<^verbatim>\<open>tu_edpt_dir\<close> and
  \<^verbatim>\<open>tu_edpt_addr\<close> are declared in \<^verbatim>\<open>common/tusb_types.h\<close>, outside the driver
  file; the model takes the USB encoding of an endpoint address: bit 7 is the
  direction (set for IN), the low seven bits are the endpoint number.
\<close>

definition tu_edpt_number :: "8 word \<Rightarrow> 8 word" where
  "tu_edpt_number addr = addr AND 0x7F"

definition tu_edpt_dir :: "8 word \<Rightarrow> tusb_dir_t" where
  "tu_edpt_dir addr = (if addr AND 0x80 \<noteq> 0 then TUSB_DIR_IN else TUSB_DIR_OUT)"

definition tu_edpt_addr :: "8 word \<Rightarrow> tusb_dir_t \<Rightarrow> 8 word" where
  "tu_edpt_addr num dir = num OR (if dir = TUSB_DIR_IN then 0x80 else 0)"

subsection \<open>Queueing a transfer\<close>

text \<open>
  \<^verbatim>\<open>dcd_edpt_xfer\<close>. The driver indexes \<^verbatim>\<open>xfer_status[epnum][dir]\<close> without a
  bounds check; an endpoint number outside the table makes the stores land outside the
  array, which C leaves undefined: the model returns \<open>None\<close> there. Otherwise the result
  is the new state and the returned flag.
\<close>

definition dcd_edpt_xfer ::
  "msp430_h \<Rightarrow> dcd_state \<Rightarrow> 8 word \<Rightarrow> nat \<Rightarrow> 16 word \<Rightarrow> (dcd_state \<times> bool) option" where
  "dcd_edpt_xfer h s ep_addr buf total_bytes =
     (let epnum = tu_edpt_number ep_addr;
          dir = tu_edpt_dir ep_addr
      in if \<not> in_table (unat epnum) then None
         else
           let xfer = xfer_status s (unat epnum) dir;
               xfer = xfer\<lparr>buffer := buf\<rparr>;
               xfer = xfer\<lparr>total_len := total_bytes\<rparr>;
               xfer = xfer\<lparr>queued_len := 0\<rparr>;
               xfer = xfer\<lparr>short_packet := False\<rparr>;
               xfer = xfer\<lparr>zlp_sent := False\<rparr>;
               s = put_xfer (unat epnum) dir xfer s;
               s = (if epnum = 0 then
                      (if dir = TUSB_DIR_OUT then
                         (let s = s\<lparr>USBCTL := USBCTL s AND NOT (DIR h)\<rparr>
                          in s\<lparr>USBOEPCNT_0 := USBOEPCNT_0 s AND NOT (NAK h)\<rparr>)
                       else
                         (let s = s\<lparr>USBCTL := USBCTL s OR DIR h\<rparr>
                          in s\<lparr>USBIEPIFG := USBIEPIFG s OR BIT0\<rparr>))
                    else s)
           in Some (s, True))"

definition dcd_set_address :: "msp430_h \<Rightarrow> dcd_state \<Rightarrow> 8 word \<Rightarrow> dcd_state option" where
  "dcd_set_address h s dev_addr =
     (let s = s\<lparr>USBFUNADR := dev_addr\<rparr>
      in map_option fst (dcd_edpt_xfer h s (tu_edpt_addr 0 TUSB_DIR_IN) 0 0))"

subsection \<open>The packet steps\<close>

definition receive_packet :: "dcd_state \<Rightarrow> 8 word \<Rightarrow> dcd_state" where
  "receive_packet s ep_num = s"

text \<open>
  The copy loop of \<^verbatim>\<open>transmit_packet\<close>:
  \<^verbatim>\<open>for(int i = 0; i < xfer_size; i++) ep0in_buf[i] = base[i];\<close>
\<close>

function transmit_loop :: "nat \<Rightarrow> nat \<Rightarrow> nat \<Rightarrow> dcd_state \<Rightarrow> dcd_state" where
  "transmit_loop i xfer_size base s =
     (if i < xfer_size
      then transmit_loop (i + 1) xfer_size base
             (s\<lparr>USBIEP0BUF := (USBIEP0BUF s)(i := mem s (base + i))\<rparr>)
      else s)"
  by pat_completeness auto
termination
  by (relation "measure (\<lambda>(i, xfer_size, base, s). xfer_size - i)") auto

declare transmit_loop.simps [simp del]

text \<open>
  The packet size that \<^verbatim>\<open>transmit_packet\<close> chooses (its \<^verbatim>\<open>xfer_size\<close>), as a
  function of the transfer record: \<open>max_size\<close> when \<open>max_size < total_len\<close>, else
  \<open>total_len - queued_len\<close>, cut to a byte.
\<close>

definition xfer_size_of :: "xfer_ctl_t \<Rightarrow> 8 word" where
  "xfer_size_of x =
     ucast (if max_size x < total_len x then max_size x else total_len x - queued_len x)"

text \<open>
  \<^verbatim>\<open>transmit_packet\<close>. \<open>xfer_size\<close> is a \<^verbatim>\<open>uint8_t\<close>: the chosen 16-bit value is
  cut to its low byte. \<open>queued_len\<close> is advanced before the copy, from a base pointer
  taken before the advance, as in the source.
\<close>

definition transmit_packet :: "msp430_h \<Rightarrow> dcd_state \<Rightarrow> 8 word \<Rightarrow> dcd_state" where
  "transmit_packet h s ep_num =
     (if ep_num = 0 then
        (let xfer = xfer_status s 0 TUSB_DIR_IN;
             zlp = (total_len xfer = 0)
         in if (\<not> zlp \<and> total_len xfer = queued_len xfer) \<or> zlp_sent xfer
            then dcd_event_xfer_complete ep_num (queued_len xfer) XFER_RESULT_SUCCESS s
            else
              (let base = buffer xfer + unat (queued_len xfer);
                   remaining = total_len xfer - queued_len xfer;
                   xfer_size = (ucast (if max_size xfer < total_len xfer
                                       then max_size xfer else remaining) :: 8 word);
                   xfer = xfer\<lparr>queued_len := queued_len xfer + ucast xfer_size\<rparr>;
                   xfer = (if total_len xfer = 0 then xfer\<lparr>zlp_sent := True\<rparr> else xfer);
                   s = put_xfer 0 TUSB_DIR_IN xfer s;
                   s = transmit_loop 0 (unat xfer_size) base s;
                   s = s\<lparr>USBIEPCNT_0 := (USBIEPCNT_0 s AND 0xF0) + xfer_size\<rparr>
               in s\<lparr>USBIEPCNT_0 := USBIEPCNT_0 s AND NOT (NAK h)\<rparr>))
      else s)"

subsection \<open>Setup capture and the interrupt service routine\<close>

text \<open>
  The copy loop of \<^verbatim>\<open>handle_setup_packet\<close>:
  \<^verbatim>\<open>for(int i = 0; i < 8; i++) _setup_packet[i] = setup_buf[i];\<close>
\<close>

function setup_loop :: "nat \<Rightarrow> dcd_state \<Rightarrow> dcd_state" where
  "setup_loop i s =
     (if i < 8
      then setup_loop (i + 1) (s\<lparr>setup_packet := (setup_packet s)(i := USBSUBLK s i)\<rparr>)
      else s)"
  by pat_completeness auto
termination
  by (relation "measure (\<lambda>(i, s). 8 - i)") auto

declare setup_loop.simps [simp del]

definition handle_setup_packet :: "dcd_state \<Rightarrow> dcd_state" where
  "handle_setup_packet s = dcd_event_setup_received (setup_loop 0 s)"

text \<open>
  The \<^verbatim>\<open>default\<close> arm of the vector switch is \<^verbatim>\<open>while(true);\<close>: a loop with an
  empty body and no exit. A run that does not return has the value \<open>None\<close>.
\<close>

partial_function (option) while_true :: "dcd_state \<Rightarrow> dcd_state option" where
  "while_true s = while_true s"

text \<open>
  \<^verbatim>\<open>USB_UBM_ISR\<close>. The vector is read from \<open>USBVECINT\<close> after the setup flag has
  been handled; what the hardware does to its own registers on that read is not part
  of the driver.
\<close>

definition USB_UBM_ISR :: "msp430_h \<Rightarrow> dcd_state \<Rightarrow> dcd_state option" where
  "USB_UBM_ISR h s =
     (let setup_status = USBIFG s AND SETUPIFG h;
          s = (if setup_status \<noteq> 0 then handle_setup_packet s else s);
          curr_vector = USBVECINT s
      in if curr_vector = USBVECINT_RSTR h then Some (dcd_event_bus_signal (bus_reset h s))
         else if curr_vector = USBVECINT_SETUP_PACKET_RECEIVED h then Some s
         else if curr_vector = USBVECINT_INPUT_ENDPOINT0 h then Some (transmit_packet h s 0)
         else if curr_vector = USBVECINT_OUTPUT_ENDPOINT0 h then Some (receive_packet s 0)
         else while_true s)"

text \<open>
  The same routine with the loop observed from outside. \<open>while_true_fuel n s\<close> takes
  \<open>n\<close> turns of \<^verbatim>\<open>while(true);\<close> from the state \<open>s\<close>: the condition is the constant
  true and the body is the empty statement, so a turn hands the state on as it is, and
  after any number of turns the routine is still \<open>Running\<close>, in the state it has then.
  \<open>Returned\<close> is a run that has left the routine. \<open>USB_UBM_ISR_fuel\<close> is
  \<open>USB_UBM_ISR\<close> line by line, with this loop in the \<^verbatim>\<open>default\<close> arm.
\<close>

datatype isr_run = Returned dcd_state | Running dcd_state

primrec while_true_fuel :: "nat \<Rightarrow> dcd_state \<Rightarrow> isr_run" where
  "while_true_fuel 0 s = Running s"
| "while_true_fuel (Suc n) s = while_true_fuel n s"

definition USB_UBM_ISR_fuel :: "msp430_h \<Rightarrow> nat \<Rightarrow> dcd_state \<Rightarrow> isr_run" where
  "USB_UBM_ISR_fuel h n s =
     (let setup_status = USBIFG s AND SETUPIFG h;
          s = (if setup_status \<noteq> 0 then handle_setup_packet s else s);
          curr_vector = USBVECINT s
      in if curr_vector = USBVECINT_RSTR h then Returned (dcd_event_bus_signal (bus_reset h s))
         else if curr_vector = USBVECINT_SETUP_PACKET_RECEIVED h then Returned s
         else if curr_vector = USBVECINT_INPUT_ENDPOINT0 h then Returned (transmit_packet h s 0)
         else if curr_vector = USBVECINT_OUTPUT_ENDPOINT0 h then Returned (receive_packet s 0)
         else while_true_fuel n s)"

subsection \<open>A concrete device\<close>

text \<open>
  One assignment of the header's constants, used to run the driver on concrete inputs.
\<close>

definition sample_h :: msp430_h where
  "sample_h = \<lparr>USBKEY = 0x9628, USB_EN = 0x0001, PUR_EN = 0x0002,
     VUOVLIE = 0x0100, VBONIE = 0x0200, VBOFFIE = 0x0400,
     VUOVLIFG = 0x0001, VBONIFG = 0x0002, VBOFFIFG = 0x0004,
     UBME = 0x80, USBIIE = 0x04, NAK = 0x80, FEN = 0x40, DIR = 0x01,
     SETUPIE = 0x04, RSTRIE = 0x80, SETUPIFG = 0x04,
     USBVECINT_RSTR = 0x16, USBVECINT_SETUP_PACKET_RECEIVED = 0x20,
     USBVECINT_INPUT_ENDPOINT0 = 0x12, USBVECINT_OUTPUT_ENDPOINT0 = 0x14\<rparr>"

text \<open>
  The state at program start: the statics as the file initialises them (the table and
  the setup buffer are zero, \<open>iepcnt\<close> is \<open>0xFF\<close>), all registers clear, and an
  application memory whose byte at address \<open>a\<close> is \<open>a mod 256\<close>.
\<close>

definition zero_xfer :: xfer_ctl_t where
  "zero_xfer = \<lparr>buffer = 0, total_len = 0, queued_len = 0, max_size = 0,
                short_packet = False, zlp_sent = False\<rparr>"

definition power_on :: dcd_state where
  "power_on = \<lparr>USBKEYPID = 0, USBCNF = 0, USBPWRCTL = 0, USBVECINT = 0,
     USBOEPIE = 0, USBIEPIE = 0, USBIE = 0, USBOEPIFG = 0, USBIEPIFG = 0, USBIFG = 0,
     USBCTL = 0, USBFUNADR = 0, USBOEPCNF_0 = 0, USBIEPCNF_0 = 0,
     USBOEPCNT_0 = 0, USBIEPCNT_0 = 0,
     USBIEP0BUF = (\<lambda>_. 0), USBSUBLK = (\<lambda>_. 0), SR_GIE = True,
     usbiepie_mirror = 0, usboepie_mirror = 0, usbie_mirror = 0, usbpwrctl_mirror = 0,
     in_isr = False, setup_packet = (\<lambda>_. 0), xfer_status = (\<lambda>_ _. zero_xfer),
     iepcnt = 0xFF, mem = (\<lambda>a. of_nat a), events = []\<rparr>"

text \<open>
  An interrupt with a setup packet pending and a vector, 2, that is none of the four
  that \<open>sample_h\<close> gives to the switch.
\<close>

definition stray_vector :: dcd_state where
  "stray_vector = power_on\<lparr>USBVECINT := 0x02, USBIFG := 0x04\<rparr>"

text \<open>The device after \<open>dcd_init\<close> and a bus reset (endpoint 0 has \<open>max_size = 8\<close>).\<close>

definition after_reset :: dcd_state where
  "after_reset = bus_reset sample_h (dcd_init sample_h power_on)"

text \<open>Queueing an IN transfer on endpoint 0 of the reset device.\<close>

definition queue_in_ep0 :: "nat \<Rightarrow> 16 word \<Rightarrow> dcd_state option" where
  "queue_in_ep0 buf len =
     map_option fst (dcd_edpt_xfer sample_h after_reset (tu_edpt_addr 0 TUSB_DIR_IN) buf len)"

text \<open>\<open>n\<close> IN interrupts on endpoint 0 in a row: \<open>n\<close> packet-transmission steps.\<close>

primrec transmit_steps :: "msp430_h \<Rightarrow> nat \<Rightarrow> dcd_state \<Rightarrow> dcd_state" where
  "transmit_steps h 0 s = s"
| "transmit_steps h (Suc n) s = transmit_steps h n (transmit_packet h s 0)"

abbreviation ep0_in :: "dcd_state \<Rightarrow> xfer_ctl_t" where
  "ep0_in s \<equiv> xfer_status s 0 TUSB_DIR_IN"

text \<open>
  An IN transfer of \<open>len\<close> bytes from address \<open>buf\<close> is in flight on endpoint 0 of
  the reset device with \<open>q\<close> bytes queued: no event has been emitted yet, and the count
  register holds either the NAK bit alone (before the first packet) or the size of an
  8-byte packet.
\<close>

definition in_flight :: "dcd_state \<Rightarrow> nat \<Rightarrow> 16 word \<Rightarrow> 16 word \<Rightarrow> bool" where
  "in_flight s buf len q \<longleftrightarrow>
     ep0_in s = \<lparr>buffer = buf, total_len = len, queued_len = q, max_size = 8,
                 short_packet = False, zlp_sent = False\<rparr> \<and>
     events s = [] \<and> mem s = (\<lambda>a. of_nat a) \<and>
     (USBIEPCNT_0 s = 0x80 \<or> USBIEPCNT_0 s = 8)"

section \<open>Properties\<close>

subsection \<open>The interrupt mask\<close>

lemma ucast_byte_mirror: "(ucast (ucast (x :: 8 word) :: 16 word) :: 8 word) = x"
  by (simp add: ucast_up_ucast_id is_up)

lemma and_not_or_and: "(p AND NOT m) OR (p AND m) = (p :: 16 word)"
  by (rule bit_word_eqI) (auto simp: bit_simps)

text \<open>
  Claim C4. From any state, \<open>dcd_int_disable\<close> followed at once by \<open>dcd_int_enable\<close>
  leaves the four interrupt-enable registers (\<open>USBOEPIE\<close>, \<open>USBIEPIE\<close>, \<open>USBIE\<close>,
  \<open>USBPWRCTL\<close>) with the values they had before the disable.
\<close>

theorem dcd_int_disable_enable_roundtrip:
  "USBOEPIE (dcd_int_enable h (dcd_int_disable h s)) = USBOEPIE s \<and>
   USBIEPIE (dcd_int_enable h (dcd_int_disable h s)) = USBIEPIE s \<and>
   USBIE (dcd_int_enable h (dcd_int_disable h s)) = USBIE s \<and>
   USBPWRCTL (dcd_int_enable h (dcd_int_disable h s)) = USBPWRCTL s"
  by (simp add: dcd_int_enable_def dcd_int_disable_def Let_def ucast_byte_mirror and_not_or_and)

text \<open>
  Claim C7. When no disable is pending (\<open>in_isr\<close> is false), \<open>dcd_int_enable\<close> leaves
  the four interrupt-enable registers and the four mirrors as they were.
\<close>

theorem dcd_int_enable_not_pending:
  assumes "\<not> in_isr s"
  shows "USBOEPIE (dcd_int_enable h s) = USBOEPIE s \<and>
         USBIEPIE (dcd_int_enable h s) = USBIEPIE s \<and>
         USBIE (dcd_int_enable h s) = USBIE s \<and>
         USBPWRCTL (dcd_int_enable h s) = USBPWRCTL s \<and>
         usboepie_mirror (dcd_int_enable h s) = usboepie_mirror s \<and>
         usbiepie_mirror (dcd_int_enable h s) = usbiepie_mirror s \<and>
         usbie_mirror (dcd_int_enable h s) = usbie_mirror s \<and>
         usbpwrctl_mirror (dcd_int_enable h s) = usbpwrctl_mirror s"
  using assms by (simp add: dcd_int_enable_def Let_def)

theorem dcd_int_enable_not_pending_witness:
  "\<not> in_isr (power_on\<lparr>USBOEPIE := 1, USBIE := 0x84, usbie_mirror := 0x33\<rparr>) \<and>
   USBOEPIE (dcd_int_enable sample_h (power_on\<lparr>USBOEPIE := 1, USBIE := 0x84, usbie_mirror := 0x33\<rparr>)) = 1 \<and>
   USBIE (dcd_int_enable sample_h (power_on\<lparr>USBOEPIE := 1, USBIE := 0x84, usbie_mirror := 0x33\<rparr>)) = 0x84 \<and>
   usbie_mirror (dcd_int_enable sample_h (power_on\<lparr>USBOEPIE := 1, USBIE := 0x84, usbie_mirror := 0x33\<rparr>)) = 0x33"
proof -
  have h: "\<not> in_isr (power_on\<lparr>USBOEPIE := 1, USBIE := 0x84, usbie_mirror := 0x33\<rparr>)"
    by (simp add: power_on_def)
  show ?thesis
    using h dcd_int_enable_not_pending [OF h, of sample_h] by simp
qed

text \<open>
  Claim C9. \<open>dcd_int_enable\<close> is idempotent: a second call in a row changes nothing,
  in the registers, the mirrors, the \<open>in_isr\<close> flag or anything else.
\<close>

theorem dcd_int_enable_idempotent:
  "dcd_int_enable h (dcd_int_enable h s) = dcd_int_enable h s"
  by (simp add: dcd_int_enable_def Let_def)

subsection \<open>The copy loops and the interrupt service routine\<close>

lemma while_true_None: "while_true s = None"
proof (cases "while_true s")
  case None
  then show ?thesis .
next
  case (Some y)
  have False
    using while_true.raw_induct [where P = "\<lambda>_ _. False", OF _ Some] by blast
  then show ?thesis ..
qed

lemma setup_loop_USBVECINT: "USBVECINT (setup_loop i s) = USBVECINT s"
proof (induction i s rule: setup_loop.induct)
  case (1 i s)
  show ?case
  proof (cases "i < 8")
    case True
    with "1" show ?thesis by (subst setup_loop.simps) simp
  next
    case False
    then show ?thesis by (subst setup_loop.simps) simp
  qed
qed

lemma handle_setup_packet_USBVECINT: "USBVECINT (handle_setup_packet s) = USBVECINT s"
  by (simp add: handle_setup_packet_def dcd_event_setup_received_def setup_loop_USBVECINT)

lemma setup_loop_events: "events (setup_loop i s) = events s"
proof (induction i s rule: setup_loop.induct)
  case (1 i s)
  show ?case
  proof (cases "i < 8")
    case True
    with "1" show ?thesis by (subst setup_loop.simps) simp
  next
    case False
    then show ?thesis by (subst setup_loop.simps) simp
  qed
qed

lemma setup_loop_USBSUBLK: "USBSUBLK (setup_loop i s) = USBSUBLK s"
proof (induction i s rule: setup_loop.induct)
  case (1 i s)
  show ?case
  proof (cases "i < 8")
    case True
    with "1" show ?thesis by (subst setup_loop.simps) simp
  next
    case False
    then show ?thesis by (subst setup_loop.simps) simp
  qed
qed

text \<open>The loop copies the bytes \<open>i\<close> to 7 of the setup block.\<close>

lemma setup_loop_setup_packet:
  "setup_packet (setup_loop i s) j =
     (if i \<le> j \<and> j < 8 then USBSUBLK s j else setup_packet s j)"
proof (induction i s rule: setup_loop.induct)
  case (1 i s)
  show ?case
  proof (cases "i < 8")
    case True
    with "1" show ?thesis by (subst setup_loop.simps) auto
  next
    case False
    then show ?thesis by (subst setup_loop.simps) auto
  qed
qed

lemma handle_setup_packet_events:
  "events (handle_setup_packet s) = events s @ [Setup_received (map (USBSUBLK s) [0..<8])]"
  by (simp add: handle_setup_packet_def dcd_event_setup_received_def setup_loop_events
        setup_loop_setup_packet)

text \<open>However many turns the loop takes, the routine is still in it, in the same state.\<close>

lemma while_true_fuel_Running: "while_true_fuel n s = Running s"
  by (induction n) simp_all

text \<open>
  The two views of the routine agree: it returns in the one exactly when it returns in
  the other, with the same state, and a run that is still in the loop after \<open>n\<close> turns,
  for whatever \<open>n\<close>, is a run that does not return.
\<close>

lemma USB_UBM_ISR_fuel_agrees:
  "USB_UBM_ISR h s =
     (case USB_UBM_ISR_fuel h n s of Returned s' \<Rightarrow> Some s' | Running s' \<Rightarrow> None)"
  by (simp add: USB_UBM_ISR_def USB_UBM_ISR_fuel_def Let_def while_true_None
        while_true_fuel_Running)

text \<open>
  Claim C6. When the vector read from \<open>USBVECINT\<close> is none of the four that the switch
  names (bus reset, setup packet received, input endpoint 0, output endpoint 0), the
  interrupt service routine does not return, and after any number \<open>n\<close> of turns of
  \<^verbatim>\<open>while(true);\<close> it is still running in the state in which it entered the loop:
  the state it was called in, after the setup capture when the setup flag was pending.
  So the events are those emitted before the call, followed by the setup event of this
  call when the flag was pending (it is emitted before the vector is read), and nothing
  is emitted after that.
\<close>

theorem USB_UBM_ISR_unknown_vector_halts:
  assumes "USBVECINT s \<noteq> USBVECINT_RSTR h"
    and "USBVECINT s \<noteq> USBVECINT_SETUP_PACKET_RECEIVED h"
    and "USBVECINT s \<noteq> USBVECINT_INPUT_ENDPOINT0 h"
    and "USBVECINT s \<noteq> USBVECINT_OUTPUT_ENDPOINT0 h"
  shows "USB_UBM_ISR h s = None \<and>
         USB_UBM_ISR_fuel h n s =
           Running (if USBIFG s AND SETUPIFG h \<noteq> 0 then handle_setup_packet s else s) \<and>
         events (if USBIFG s AND SETUPIFG h \<noteq> 0 then handle_setup_packet s else s) =
           events s @ (if USBIFG s AND SETUPIFG h \<noteq> 0
                       then [Setup_received (map (USBSUBLK s) [0..<8])] else [])"
proof (intro conjI)
  show "USB_UBM_ISR h s = None"
    using assms
    by (simp add: USB_UBM_ISR_def Let_def handle_setup_packet_USBVECINT while_true_None)
  show "USB_UBM_ISR_fuel h n s =
          Running (if USBIFG s AND SETUPIFG h \<noteq> 0 then handle_setup_packet s else s)"
    using assms
    by (simp add: USB_UBM_ISR_fuel_def Let_def handle_setup_packet_USBVECINT
          while_true_fuel_Running)
  show "events (if USBIFG s AND SETUPIFG h \<noteq> 0 then handle_setup_packet s else s) =
          events s @ (if USBIFG s AND SETUPIFG h \<noteq> 0
                      then [Setup_received (map (USBSUBLK s) [0..<8])] else [])"
    by (simp add: handle_setup_packet_events)
qed

text \<open>
  The witness has a setup packet pending: the setup event is emitted, then the routine
  stays in the loop and emits nothing more.
\<close>

theorem USB_UBM_ISR_unknown_vector_halts_witness:
  "USB_UBM_ISR sample_h stray_vector = None \<and>
   (\<forall>n. USB_UBM_ISR_fuel sample_h n stray_vector = Running (handle_setup_packet stray_vector)) \<and>
   events (handle_setup_packet stray_vector) = [Setup_received [0, 0, 0, 0, 0, 0, 0, 0]]"
proof -
  have v: "USBVECINT stray_vector \<noteq> USBVECINT_RSTR sample_h"
    "USBVECINT stray_vector \<noteq> USBVECINT_SETUP_PACKET_RECEIVED sample_h"
    "USBVECINT stray_vector \<noteq> USBVECINT_INPUT_ENDPOINT0 sample_h"
    "USBVECINT stray_vector \<noteq> USBVECINT_OUTPUT_ENDPOINT0 sample_h"
    by (simp_all add: stray_vector_def sample_h_def)
  have p: "USBIFG stray_vector AND SETUPIFG sample_h \<noteq> 0"
    by (simp add: stray_vector_def sample_h_def)
  have e: "events stray_vector = []" and b: "USBSUBLK stray_vector = (\<lambda>_. 0)"
    by (simp_all add: stray_vector_def power_on_def)
  have u: "[0..<8] = [0, 1, 2, 3, 4, 5, 6, 7::nat]"
    by (simp add: upt_rec)
  show ?thesis
    using USB_UBM_ISR_unknown_vector_halts [OF v, where n = n for n]
    by (simp add: p e b u)
qed

lemma transmit_loop_events: "events (transmit_loop i n b s) = events s"
proof (induction i n b s rule: transmit_loop.induct)
  case (1 i n b s)
  show ?case
  proof (cases "i < n")
    case True
    with "1" show ?thesis by (subst transmit_loop.simps) simp
  next
    case False
    then show ?thesis by (subst transmit_loop.simps) simp
  qed
qed

lemma transmit_loop_xfer_status: "xfer_status (transmit_loop i n b s) = xfer_status s"
proof (induction i n b s rule: transmit_loop.induct)
  case (1 i n b s)
  show ?case
  proof (cases "i < n")
    case True
    with "1" show ?thesis by (subst transmit_loop.simps) simp
  next
    case False
    then show ?thesis by (subst transmit_loop.simps) simp
  qed
qed

lemma transmit_loop_mem: "mem (transmit_loop i n b s) = mem s"
proof (induction i n b s rule: transmit_loop.induct)
  case (1 i n b s)
  show ?case
  proof (cases "i < n")
    case True
    with "1" show ?thesis by (subst transmit_loop.simps) simp
  next
    case False
    then show ?thesis by (subst transmit_loop.simps) simp
  qed
qed

lemma transmit_loop_USBIEPCNT_0: "USBIEPCNT_0 (transmit_loop i n b s) = USBIEPCNT_0 s"
proof (induction i n b s rule: transmit_loop.induct)
  case (1 i n b s)
  show ?case
  proof (cases "i < n")
    case True
    with "1" show ?thesis by (subst transmit_loop.simps) simp
  next
    case False
    then show ?thesis by (subst transmit_loop.simps) simp
  qed
qed

text \<open>The loop copies the bytes \<open>base[i..n-1]\<close> and leaves the rest of the block alone.\<close>

lemma transmit_loop_USBIEP0BUF:
  "USBIEP0BUF (transmit_loop i n b s) j =
     (if i \<le> j \<and> j < n then mem s (b + j) else USBIEP0BUF s j)"
proof (induction i n b s rule: transmit_loop.induct)
  case (1 i n b s)
  show ?case
  proof (cases "i < n")
    case True
    with "1" show ?thesis by (subst transmit_loop.simps) (auto simp: transmit_loop_mem)
  next
    case False
    then show ?thesis by (subst transmit_loop.simps) auto
  qed
qed

subsection \<open>The packet-transmission step\<close>

text \<open>
  The completion branch: the step is the emission of one event and nothing else.
\<close>

lemma transmit_packet_completion:
  assumes "(total_len (ep0_in s) \<noteq> 0 \<and> queued_len (ep0_in s) = total_len (ep0_in s))
           \<or> zlp_sent (ep0_in s)"
  shows "transmit_packet h s 0 =
           dcd_event_xfer_complete 0 (queued_len (ep0_in s)) XFER_RESULT_SUCCESS s"
  using assms by (auto simp add: transmit_packet_def Let_def)

text \<open>
  The other branch: the step sends a packet of \<open>xfer_size_of\<close> bytes, taken from
  \<open>buffer + queued_len\<close>, advances \<open>queued_len\<close> by as much, marks a zero-length
  transfer as sent, and programs the count register.
\<close>

lemma transmit_packet_send:
  assumes "\<not> ((total_len (ep0_in s) \<noteq> 0 \<and> total_len (ep0_in s) = queued_len (ep0_in s))
               \<or> zlp_sent (ep0_in s))"
  shows "ep0_in (transmit_packet h s 0) =
           (ep0_in s)\<lparr>queued_len := queued_len (ep0_in s) + ucast (xfer_size_of (ep0_in s)),
                      zlp_sent := (total_len (ep0_in s) = 0)\<rparr>"
    and "events (transmit_packet h s 0) = events s"
    and "mem (transmit_packet h s 0) = mem s"
    and "USBIEPCNT_0 (transmit_packet h s 0) =
           ((USBIEPCNT_0 s AND 0xF0) + xfer_size_of (ep0_in s)) AND NOT (NAK h)"
    and "USBIEP0BUF (transmit_packet h s 0) j =
           (if j < unat (xfer_size_of (ep0_in s))
            then mem s (buffer (ep0_in s) + unat (queued_len (ep0_in s)) + j)
            else USBIEP0BUF s j)"
  using assms
  by (auto simp add: transmit_packet_def Let_def put_xfer_def xfer_size_of_def
        transmit_loop_xfer_status transmit_loop_events transmit_loop_mem
        transmit_loop_USBIEPCNT_0 transmit_loop_USBIEP0BUF)

lemma transmit_steps_Suc_end:
  "transmit_steps h (Suc n) s = transmit_packet h (transmit_steps h n s) 0"
  by (induction n arbitrary: s) simp_all

subsection \<open>Transfers on the reset device\<close>

lemma after_reset_fields:
  "ep0_in after_reset = zero_xfer\<lparr>max_size := 8\<rparr>"
  "events after_reset = []"
  "mem after_reset = (\<lambda>a. of_nat a)"
  "USBIEPCNT_0 after_reset = 0x80"
  by (simp_all add: after_reset_def bus_reset_def dcd_init_def put_xfer_def Let_def
        power_on_def sample_h_def)

lemma dcd_edpt_xfer_ep0_in:
  "dcd_edpt_xfer h s (tu_edpt_addr 0 TUSB_DIR_IN) buf len =
     Some (put_xfer 0 TUSB_DIR_IN
             ((ep0_in s)\<lparr>buffer := buf, total_len := len, queued_len := 0,
                        short_packet := False, zlp_sent := False\<rparr>) s
           \<lparr>USBCTL := USBCTL s OR DIR h, USBIEPIFG := USBIEPIFG s OR BIT0\<rparr>, True)"
  by (simp add: dcd_edpt_xfer_def tu_edpt_addr_def tu_edpt_number_def tu_edpt_dir_def
        in_table_def put_xfer_def Let_def)

lemma queue_in_ep0_in_flight:
  "\<exists>s. queue_in_ep0 buf len = Some s \<and> in_flight s buf len 0"
  by (simp add: queue_in_ep0_def dcd_edpt_xfer_ep0_in put_xfer_def after_reset_fields
        zero_xfer_def in_flight_def)

text \<open>
  Claim C5. When the packet-transmission step for endpoint 0 finds
  \<open>total_len > 0\<close> and \<open>queued_len = total_len\<close>, or \<open>zlp_sent\<close> set, the state it
  returns is the state it was given with exactly one event appended: a transfer-complete
  event for endpoint 0 that carries \<open>queued_len\<close> and the success status. No register
  and no buffer is written.
\<close>

theorem transmit_packet_complete:
  assumes "(0 < total_len (ep0_in s) \<and> queued_len (ep0_in s) = total_len (ep0_in s))
           \<or> zlp_sent (ep0_in s)"
  shows "transmit_packet h s 0 =
           s\<lparr>events := events s @
               [Xfer_complete 0 (unat (queued_len (ep0_in s))) XFER_RESULT_SUCCESS]\<rparr>"
proof -
  from assms
  have "(total_len (ep0_in s) \<noteq> 0 \<and> queued_len (ep0_in s) = total_len (ep0_in s))
        \<or> zlp_sent (ep0_in s)"
    by (auto simp: word_neq_0_conv)
  from transmit_packet_completion [OF this] show ?thesis
    by (simp add: dcd_event_xfer_complete_def)
qed

text \<open>
  The witness is the 8-byte transfer with \<open>max_size = 8\<close>: the first step sends the
  8 bytes, the second takes the completion branch and reports 8 bytes.
\<close>

theorem transmit_packet_complete_witness:
  "map_option (\<lambda>s. events (transmit_steps sample_h 2 s)) (queue_in_ep0 100 8)
     = Some [Xfer_complete 0 8 XFER_RESULT_SUCCESS]"
proof -
  obtain s where q: "queue_in_ep0 100 8 = Some s" and f: "in_flight s 100 8 0"
    using queue_in_ep0_in_flight by blast
  let ?s1 = "transmit_packet sample_h s 0"
  have x: "ep0_in s = \<lparr>buffer = 100, total_len = 8, queued_len = 0, max_size = 8,
                        short_packet = False, zlp_sent = False\<rparr>"
    and e: "events s = []"
    using f by (simp_all add: in_flight_def)
  have g: "\<not> ((total_len (ep0_in s) \<noteq> 0 \<and> total_len (ep0_in s) = queued_len (ep0_in s))
               \<or> zlp_sent (ep0_in s))"
    by (simp add: x)
  have x1: "ep0_in ?s1 = \<lparr>buffer = 100, total_len = 8, queued_len = 8, max_size = 8,
                           short_packet = False, zlp_sent = False\<rparr>"
    unfolding transmit_packet_send(1) [OF g] by (simp add: x xfer_size_of_def)
  have e1: "events ?s1 = []"
    unfolding transmit_packet_send(2) [OF g] by (rule e)
  have c: "(0 < total_len (ep0_in ?s1) \<and> queued_len (ep0_in ?s1) = total_len (ep0_in ?s1))
           \<or> zlp_sent (ep0_in ?s1)"
    by (simp add: x1)
  have two: "transmit_steps sample_h 2 s = transmit_packet sample_h ?s1 0"
    by (simp add: numeral_2_eq_2)
  show ?thesis
    using transmit_packet_complete [OF c, of sample_h]
    by (simp add: q two x1 e1)
qed

text \<open>
  Claim C10. When the packet-transmission step for endpoint 0 takes the completion
  branch, the transfer record of endpoint 0 IN (all six fields) is the same after the
  call as before it.
\<close>

theorem completion_keeps_transfer_record:
  assumes "(0 < total_len (ep0_in s) \<and> queued_len (ep0_in s) = total_len (ep0_in s))
           \<or> zlp_sent (ep0_in s)"
  shows "ep0_in (transmit_packet h s 0) = ep0_in s"
proof -
  from assms
  have "(total_len (ep0_in s) \<noteq> 0 \<and> queued_len (ep0_in s) = total_len (ep0_in s))
        \<or> zlp_sent (ep0_in s)"
    by (auto simp: word_neq_0_conv)
  from transmit_packet_completion [OF this] show ?thesis
    by (simp add: dcd_event_xfer_complete_def)
qed

text \<open>
  The witness is the zero-length transfer: the first step sends the zero-length packet
  and sets \<open>zlp_sent\<close>, the second takes the completion branch and keeps the record.
\<close>

theorem completion_keeps_transfer_record_witness:
  "map_option (\<lambda>s. ep0_in (transmit_steps sample_h 2 s)) (queue_in_ep0 0 0)
     = Some \<lparr>buffer = 0, total_len = 0, queued_len = 0, max_size = 8,
             short_packet = False, zlp_sent = True\<rparr>"
proof -
  obtain s where q: "queue_in_ep0 0 0 = Some s" and f: "in_flight s 0 0 0"
    using queue_in_ep0_in_flight by blast
  let ?s1 = "transmit_packet sample_h s 0"
  have x: "ep0_in s = \<lparr>buffer = 0, total_len = 0, queued_len = 0, max_size = 8,
                        short_packet = False, zlp_sent = False\<rparr>"
    using f by (simp add: in_flight_def)
  have g: "\<not> ((total_len (ep0_in s) \<noteq> 0 \<and> total_len (ep0_in s) = queued_len (ep0_in s))
               \<or> zlp_sent (ep0_in s))"
    by (simp add: x)
  have x1: "ep0_in ?s1 = \<lparr>buffer = 0, total_len = 0, queued_len = 0, max_size = 8,
                           short_packet = False, zlp_sent = True\<rparr>"
    unfolding transmit_packet_send(1) [OF g] by (simp add: x xfer_size_of_def)
  have c: "(0 < total_len (ep0_in ?s1) \<and> queued_len (ep0_in ?s1) = total_len (ep0_in ?s1))
           \<or> zlp_sent (ep0_in ?s1)"
    by (simp add: x1)
  have two: "transmit_steps sample_h 2 s = transmit_packet sample_h ?s1 0"
    by (simp add: numeral_2_eq_2)
  show ?thesis
    using completion_keeps_transfer_record [OF c, of sample_h]
    by (simp add: q two x1)
qed

subsection \<open>A transfer of 20 bytes with 8-byte packets\<close>

lemma dvd8_add8: "8 dvd unat (q :: 16 word) \<Longrightarrow> 8 dvd unat (q + 8)"
proof -
  assume a: "8 dvd unat q"
  have "unat (q + 8) = (unat q + 8) mod 65536"
    by (simp add: unat_word_ariths)
  moreover have "(8::nat) dvd 65536"
    by simp
  ultimately show ?thesis
    using a by (simp add: dvd_mod_iff)
qed

text \<open>
  With \<open>total_len = 20\<close> and \<open>max_size = 8\<close> the test \<open>max_size < total_len\<close> holds at
  every step, so every packet has 8 bytes. A \<open>queued_len\<close> that is a multiple of 8 is
  never 20, so the step never takes the completion branch.
\<close>

lemma in_flight_20_step:
  assumes f: "in_flight s buf 20 q" and d: "8 dvd unat q"
  shows "in_flight (transmit_packet sample_h s 0) buf 20 (q + 8)"
    and "USBIEPCNT_0 (transmit_packet sample_h s 0) = 8"
    and "USBIEP0BUF (transmit_packet sample_h s 0) j =
           (if j < 8 then of_nat (buf + unat q + j) else USBIEP0BUF s j)"
proof -
  have x: "ep0_in s = \<lparr>buffer = buf, total_len = 20, queued_len = q, max_size = 8,
                        short_packet = False, zlp_sent = False\<rparr>"
    and e: "events s = []" and m: "mem s = (\<lambda>a. of_nat a)"
    and c: "USBIEPCNT_0 s = 0x80 \<or> USBIEPCNT_0 s = 8"
    using f by (simp_all add: in_flight_def)
  have ne: "q \<noteq> 20"
  proof
    assume "q = 20"
    with d show False by simp
  qed
  have sz: "xfer_size_of (ep0_in s) = 8"
    by (simp add: x xfer_size_of_def)
  have g: "\<not> ((total_len (ep0_in s) \<noteq> 0 \<and> total_len (ep0_in s) = queued_len (ep0_in s))
               \<or> zlp_sent (ep0_in s))"
    using ne by (auto simp add: x)
  note send = transmit_packet_send [OF g, where h = sample_h]
  have nak: "NAK sample_h = 0x80"
    by (simp add: sample_h_def)
  show cnt: "USBIEPCNT_0 (transmit_packet sample_h s 0) = 8"
    using c by (auto simp add: send(4) sz nak)
  show "in_flight (transmit_packet sample_h s 0) buf 20 (q + 8)"
    by (simp add: in_flight_def send(1,2,3) sz [unfolded x] cnt e m x)
  show "USBIEP0BUF (transmit_packet sample_h s 0) j =
           (if j < 8 then of_nat (buf + unat q + j) else USBIEP0BUF s j)"
    by (simp add: send(5) sz [unfolded x] m x)
qed

lemma in_flight_20_steps:
  "in_flight s buf 20 q \<Longrightarrow> 8 dvd unat q \<Longrightarrow>
     in_flight (transmit_steps sample_h n s) buf 20 (q + 8 * of_nat n)
     \<and> 8 dvd unat (q + 8 * of_nat n)"
proof (induction n arbitrary: s q)
  case 0
  then show ?case by simp
next
  case (Suc n)
  have "in_flight (transmit_packet sample_h s 0) buf 20 (q + 8)"
    using Suc.prems by (rule in_flight_20_step(1))
  moreover have "8 dvd unat (q + 8)"
    using Suc.prems(2) by (rule dvd8_add8)
  ultimately
  have "in_flight (transmit_steps sample_h n (transmit_packet sample_h s 0)) buf 20
          (q + 8 + 8 * of_nat n)
        \<and> 8 dvd unat (q + 8 + 8 * of_nat n)"
    by (rule Suc.IH)
  then show ?case by (simp add: algebra_simps)
qed

text \<open>
  Claim C1, on the reset device (\<open>max_size = 8\<close>) with an IN transfer of 20 bytes from
  address 100 queued on endpoint 0. After two steps \<open>queued_len\<close> is 16, and the third
  step does not take the completion branch. The claim's packet size is
  \<open>min max_size (total_len - queued_len) = 4\<close>; the step advances \<open>queued_len\<close> to 24,
  programs a count of 8 and copies the 8 bytes at addresses 116 to 123, four of them
  past the end of the buffer.
\<close>

theorem third_packet_of_20_has_8_bytes:
  "map_option
     (\<lambda>s. let s2 = transmit_steps sample_h 2 s;
               s3 = transmit_packet sample_h s2 0
           in ((total_len (ep0_in s2), queued_len (ep0_in s2), max_size (ep0_in s2),
                zlp_sent (ep0_in s2)),
               min (max_size (ep0_in s2)) (total_len (ep0_in s2) - queued_len (ep0_in s2)),
               queued_len (ep0_in s3), USBIEPCNT_0 s3,
               map (USBIEP0BUF s3) [0..<8], events s3))
     (queue_in_ep0 100 20)
   = Some ((20, 16, 8, False), 4, 24, 8, [116, 117, 118, 119, 120, 121, 122, 123], [])"
proof -
  obtain s where q: "queue_in_ep0 100 20 = Some s" and f: "in_flight s 100 20 0"
    using queue_in_ep0_in_flight by blast
  have f2: "in_flight (transmit_steps sample_h 2 s) 100 20 16"
    using in_flight_20_steps [OF f, of 2] by simp
  have d2: "8 dvd unat (16 :: 16 word)"
    by simp
  note st = in_flight_20_step [OF f2 d2]
  have "[0..<8] = [0, 1, 2, 3, 4, 5, 6, 7::nat]"
    by (simp add: upt_rec)
  then have b: "map (USBIEP0BUF (transmit_packet sample_h (transmit_steps sample_h 2 s) 0)) [0..<8]
                  = [116, 117, 118, 119, 120, 121, 122, 123]"
    by (simp add: st(3))
  show ?thesis
    using f2 st(1) st(2) b by (simp add: q in_flight_def Let_def)
qed

text \<open>
  Claim C2, on the same transfer (\<open>L = 20\<close>, \<open>M = 8\<close>). Whatever the number \<open>n\<close> of steps
  already taken, the next step programs a packet of 8 bytes; after \<open>n\<close> steps
  \<open>queued_len\<close> is \<open>8 * n\<close> (modulo \<open>2 ^ 16\<close>) and no event has been emitted. So the
  packets are 8, 8, 8, 8, ... and the completion event never comes, where the claim
  has 8, 8, 4 and a completion event reporting 20 bytes.
\<close>

theorem transfer_of_20_never_completes:
  "map_option
     (\<lambda>s. (USBIEPCNT_0 (transmit_steps sample_h (Suc n) s),
            queued_len (ep0_in (transmit_steps sample_h n s)),
            events (transmit_steps sample_h n s)))
     (queue_in_ep0 100 20)
   = Some (8, 8 * of_nat n, [])"
proof -
  obtain s where q: "queue_in_ep0 100 20 = Some s" and f: "in_flight s 100 20 0"
    using queue_in_ep0_in_flight by blast
  have fn: "in_flight (transmit_steps sample_h n s) 100 20 (8 * of_nat n)"
    and dn: "8 dvd unat (8 * of_nat n :: 16 word)"
    using in_flight_20_steps [OF f, of n] by simp_all
  have "USBIEPCNT_0 (transmit_steps sample_h (Suc n) s) = 8"
    unfolding transmit_steps_Suc_end using fn dn by (rule in_flight_20_step(2))
  then show ?thesis
    using fn by (simp add: q in_flight_def)
qed

text \<open>
  Claim C3, on the same transfer. After the third step \<open>queued_len\<close> is 24 while
  \<open>total_len\<close> is 20: the invariant \<open>queued_len \<le> total_len\<close> is broken.
\<close>

theorem queued_len_exceeds_total_len:
  "map_option
     (\<lambda>s. (queued_len (ep0_in (transmit_steps sample_h 3 s)),
            total_len (ep0_in (transmit_steps sample_h 3 s)),
            queued_len (ep0_in (transmit_steps sample_h 3 s))
              \<le> total_len (ep0_in (transmit_steps sample_h 3 s))))
     (queue_in_ep0 100 20)
   = Some (24, 20, False)"
proof -
  obtain s where q: "queue_in_ep0 100 20 = Some s" and f: "in_flight s 100 20 0"
    using queue_in_ep0_in_flight by blast
  have "in_flight (transmit_steps sample_h 3 s) 100 20 24"
    using in_flight_20_steps [OF f, of 3] by simp
  then show ?thesis
    by (simp add: q in_flight_def)
qed

subsection \<open>Queueing a transfer on another endpoint\<close>

text \<open>
  Claim C8, amended. For an endpoint number from 1 to 7 (a row of the table other than
  row 0) and either direction, \<open>dcd_edpt_xfer\<close> returns true and a state that differs
  from the one it was given only in the table slot of that endpoint and direction, where
  \<open>buffer\<close> and \<open>total_len\<close> are the arguments, \<open>queued_len\<close> is 0 and \<open>short_packet\<close>
  and \<open>zlp_sent\<close> are false (\<open>max_size\<close> is kept). No register and no other slot changes.
\<close>

theorem dcd_edpt_xfer_other_endpoint:
  assumes "tu_edpt_number ep_addr \<noteq> 0" and "unat (tu_edpt_number ep_addr) < 8"
  shows "dcd_edpt_xfer h s ep_addr buf total_bytes =
     Some (s\<lparr>xfer_status := (xfer_status s)
               (unat (tu_edpt_number ep_addr) :=
                  (xfer_status s (unat (tu_edpt_number ep_addr)))
                    (tu_edpt_dir ep_addr :=
                       (xfer_status s (unat (tu_edpt_number ep_addr)) (tu_edpt_dir ep_addr))
                         \<lparr>buffer := buf, total_len := total_bytes, queued_len := 0,
                          short_packet := False, zlp_sent := False\<rparr>))\<rparr>, True)"
  using assms by (simp add: dcd_edpt_xfer_def Let_def in_table_def put_xfer_def)

theorem dcd_edpt_xfer_other_endpoint_witness:
  "dcd_edpt_xfer sample_h power_on 0x83 100 20 =
     Some (power_on\<lparr>xfer_status := (xfer_status power_on)
             (3 := (xfer_status power_on 3)
                (TUSB_DIR_IN := \<lparr>buffer = 100, total_len = 20, queued_len = 0, max_size = 0,
                                 short_packet = False, zlp_sent = False\<rparr>))\<rparr>, True)"
proof -
  have n: "tu_edpt_number 0x83 = 3" and d: "tu_edpt_dir 0x83 = TUSB_DIR_IN"
    by (simp_all add: tu_edpt_number_def tu_edpt_dir_def)
  have a: "tu_edpt_number 0x83 \<noteq> 0" and b: "unat (tu_edpt_number 0x83) < 8"
    by (simp_all add: n)
  have z: "xfer_status power_on 3 TUSB_DIR_IN = zero_xfer"
    by (simp add: power_on_def)
  show ?thesis
    using dcd_edpt_xfer_other_endpoint [OF a b, of sample_h power_on 100 20]
    by (simp add: n d z zero_xfer_def)
qed

text \<open>
  The claim as stated, for every endpoint number other than 0, fails at endpoint 8: the
  table has no row 8, and the stores go outside it.
\<close>

theorem dcd_edpt_xfer_outside_table:
  "tu_edpt_number 0x08 \<noteq> 0 \<and> dcd_edpt_xfer sample_h power_on 0x08 100 20 = None"
  by (simp add: dcd_edpt_xfer_def tu_edpt_number_def in_table_def Let_def)

end
